theory Spec2Isabelle
  imports Complex_Main "HOL-Library.List_Lexorder" "HOL-Library.Char_ord"
begin

section \<open>Text\<close>


text \<open>
  Python's \<^verbatim>\<open>str\<close> is modelled by \<^typ>\<open>string\<close>: one \<^typ>\<open>char\<close> per code point, for the
  code points below 256.  White space is what \<^verbatim>\<open>str.isspace\<close> accepts there.
\<close>

definition newline :: char where
  "newline = CHR 0x0A"

definition isspace :: "char \<Rightarrow> bool" where
  "isspace c = (let n = (of_char c :: nat) in
                  (9 \<le> n \<and> n \<le> 13) \<or> (28 \<le> n \<and> n \<le> 32) \<or> n = 133 \<or> n = 160)"

definition lstrip :: "string \<Rightarrow> string" where
  "lstrip s = dropWhile isspace s"

definition rstrip :: "string \<Rightarrow> string" where
  "rstrip s = rev (dropWhile isspace (rev s))"

definition strip :: "string \<Rightarrow> string" where
  "strip s = rstrip (lstrip s)"

definition rstrip_newlines :: "string \<Rightarrow> string" where
  "rstrip_newlines s = rev (dropWhile (\<lambda>c. c = newline) (rev s))"

definition startswith :: "string \<Rightarrow> string \<Rightarrow> bool" where
  "startswith s p = (take (length p) s = p)"

definition endswith :: "string \<Rightarrow> string \<Rightarrow> bool" where
  "endswith s p = (length p \<le> length s \<and> drop (length s - length p) s = p)"

fun contains :: "string \<Rightarrow> string \<Rightarrow> bool" where
  "contains [] sub = (sub = [])"
| "contains (c # cs) sub = (startswith (c # cs) sub \<or> contains cs sub)"

fun split_acc :: "string \<Rightarrow> string \<Rightarrow> string list" where
  "split_acc cur [] = (if cur = [] then [] else [cur])"
| "split_acc cur (c # cs) =
     (if isspace c then (if cur = [] then split_acc [] cs else cur # split_acc [] cs)
      else split_acc (cur @ [c]) cs)"

definition split_ws :: "string \<Rightarrow> string list" where
  "split_ws s = split_acc [] s"

fun split_on :: "char \<Rightarrow> string \<Rightarrow> string list" where
  "split_on sep [] = [[]]"
| "split_on sep (c # cs) =
     (if c = sep then [] # split_on sep cs
      else (case split_on sep cs of [] \<Rightarrow> [[c]] | w # ws \<Rightarrow> (c # w) # ws))"

definition digit_char :: "nat \<Rightarrow> char" where
  "digit_char d = ''0123456789'' ! d"

function str_nat :: "nat \<Rightarrow> string" where
  "str_nat n = (if n < 10 then [digit_char n] else str_nat (n div 10) @ [digit_char (n mod 10)])"
  by pat_completeness auto
termination
  by (relation "measure id") auto

definition str_int :: "int \<Rightarrow> string" where
  "str_int i = (if i < 0 then CHR ''-'' # str_nat (nat (- i)) else str_nat (nat i))"

declare str_nat.simps [simp del]

definition hex_digit :: "nat \<Rightarrow> char" where
  "hex_digit d = ''0123456789abcdef'' ! d"

definition isprintable :: "char \<Rightarrow> bool" where
  "isprintable c = (let n = (of_char c :: nat) in
                      (32 \<le> n \<and> n < 127) \<or> (161 \<le> n \<and> n \<noteq> 173))"

definition repr_char :: "char \<Rightarrow> char \<Rightarrow> string" where
  "repr_char quote c =
     (if c = quote \<or> c = CHR 0x5C then [CHR 0x5C, c]
      else if c = CHR 0x09 then [CHR 0x5C, CHR ''t'']
      else if c = CHR 0x0A then [CHR 0x5C, CHR ''n'']
      else if c = CHR 0x0D then [CHR 0x5C, CHR ''r'']
      else if isprintable c then [c]
      else [CHR 0x5C, CHR ''x'', hex_digit ((of_char c :: nat) div 16),
            hex_digit ((of_char c :: nat) mod 16)])"

definition repr :: "string \<Rightarrow> string" where
  "repr s =
     (let quote = (if CHR 0x27 \<in> set s \<and> CHR 0x22 \<notin> set s then CHR 0x22 else CHR 0x27)
      in [quote] @ concat (map (repr_char quote) s) @ [quote])"


section \<open>Brace balancing (GeneratorAgentService.\_balance\_braces, ValidatorAgentService.\_balance\_braces)\<close>

text \<open>
  Both agents carry the same pass (they differ in the text of the log lines only).  The loop
  state is the triple \<^verbatim>\<open>(balanced_chars, open_count, removed)\<close>; \<open>brace_step\<close> is one
  round of \<^verbatim>\<open>for ch in code\<close>.
\<close>

definition brace_step :: "char \<Rightarrow> string \<times> nat \<times> nat \<Rightarrow> string \<times> nat \<times> nat" where
  "brace_step ch st =
     (case st of (balanced_chars, open_count, removed) \<Rightarrow>
        if ch = CHR ''{'' then (balanced_chars @ [ch], open_count + 1, removed)
        else if ch = CHR ''}'' then
          (if open_count = 0 then (balanced_chars, open_count, removed + 1)
           else (balanced_chars @ [ch], open_count - 1, removed))
        else (balanced_chars @ [ch], open_count, removed))"

definition balance_braces :: "string \<Rightarrow> string" where
  "balance_braces code =
     (case fold brace_step code ([], 0, 0) of (balanced_chars, open_count, removed) \<Rightarrow>
        if open_count > 0 then balanced_chars @ (newline # replicate open_count CHR ''}'')
        else balanced_chars)"

text \<open>The counting sense of "balanced" used by the pass.\<close>

definition opens :: "string \<Rightarrow> nat" where
  "opens s = count_list s CHR ''{''"

definition closes :: "string \<Rightarrow> nat" where
  "closes s = count_list s CHR ''}''"

definition no_early_close :: "string \<Rightarrow> bool" where
  "no_early_close s = (\<forall>n. closes (take n s) \<le> opens (take n s))"

definition brace_balanced :: "string \<Rightarrow> bool" where
  "brace_balanced s = (opens s = closes s \<and> no_early_close s)"

section \<open>Child processes\<close>

text \<open>
  What a child process run gives back to its caller: the exit status with the captured
  standard output and standard error, the timeout of \<^verbatim>\<open>subprocess\<close>, or any other
  exception (with its message).
\<close>

datatype proc_outcome = Exited int string string | TimeoutExpired | Raised string

section \<open>CodeExecutor (code\_executor.py)\<close>

text \<open>
  The result dictionary has two shapes: success with the output, failure with the error.
  \<open>execution_time_ms\<close> is wall-clock time and is left out.
\<close>

datatype exec_result = ExecOk string | ExecFailed string

text \<open>
  \<open>execute\<close> first writes the code to a temporary file (which may fail) and then runs
  the interpreter on it.
\<close>

datatype oracle_run = TempFileFailed string | Spawned proc_outcome

record code_executor =
  timeout_seconds :: nat
  max_output_size :: nat

definition CodeExecutor :: "nat \<Rightarrow> code_executor" where
  "CodeExecutor timeout = \<lparr>timeout_seconds = timeout, max_output_size = 10 * 1024 * 1024\<rparr>"

definition run_subprocess :: "code_executor \<Rightarrow> proc_outcome \<Rightarrow> exec_result" where
  "run_subprocess self po =
     (case po of
        Exited returncode stdout stderr \<Rightarrow>
          if length stdout > max_output_size self then
            ExecFailed (''Sa'' @ [CHR 0xED] @ ''da muito grande (>''
                        @ str_nat (max_output_size self) @ '' bytes)'')
          else if returncode \<noteq> 0 then
            ExecFailed (if stderr \<noteq> [] then strip stderr else ''Erro desconhecido'')
          else ExecOk (strip stdout)
      | TimeoutExpired \<Rightarrow>
          ExecFailed (''Tempo limite excedido ('' @ str_nat (timeout_seconds self) @ ''s)'')
      | Raised e \<Rightarrow> ExecFailed (''Erro ao executar c'' @ [CHR 0xF3] @ ''digo: '' @ e))"

definition execute :: "code_executor \<Rightarrow> oracle_run \<Rightarrow> exec_result" where
  "execute self run =
     (case run of
        TempFileFailed e \<Rightarrow> ExecFailed (''Erro inesperado: '' @ e)
      | Spawned po \<Rightarrow>
          (case run_subprocess self po of
             ExecOk out \<Rightarrow> ExecOk out
           | ExecFailed err \<Rightarrow> ExecFailed err))"

section \<open>GeneratorExecutorService (generator\_executor\_service.py)\<close>

datatype gen_case = GenOk string | GenFailed string

text \<open>
  \<open>run\<close> is \<^verbatim>\<open>subprocess.run([self.executable_path] + args, ...)\<close>.  An empty command
  has no first part: \<^verbatim>\<open>cmd_parts[0]\<close> raises IndexError, which the last handler turns
  into a failure before any process is started.
\<close>

definition generate_test_case :: "(string list \<Rightarrow> proc_outcome) \<Rightarrow> string \<Rightarrow> gen_case" where
  "generate_test_case run command =
     (let cmd_parts = split_ws command in
      case cmd_parts of
        [] \<Rightarrow> GenFailed ''list index out of range''
      | first # rest \<Rightarrow>
          (let args = (if first = ''./gen'' \<or> first = ''gen'' then rest else cmd_parts) in
           case run args of
             Exited returncode stdout stderr \<Rightarrow>
               if returncode = 0 then
                 (if stdout = [] \<or> strip stdout = [] then
                    GenFailed (''Gerador n'' @ [CHR 0xE3] @ ''o produziu sa'' @ [CHR 0xED] @ ''da'')
                  else GenOk (rstrip_newlines stdout @ [newline]))
               else
                 GenFailed (if stderr \<noteq> [] then stderr
                            else if stdout \<noteq> [] then stdout else ''Erro desconhecido'')
           | TimeoutExpired \<Rightarrow> GenFailed (''Timeout ap'' @ [CHR 0xF3] @ ''s 10s'')
           | Raised e \<Rightarrow> GenFailed e))"

section \<open>ValidatorExecutorService (validator\_executor\_service.py)\<close>

datatype validation = Valid | Invalid string "nat option"

definition isdigit :: "char \<Rightarrow> bool" where
  "isdigit c = (c \<in> set ''0123456789'')"

definition digit_value :: "char \<Rightarrow> nat" where
  "digit_value c = (of_char c :: nat) - 48"

definition int_of_digits :: "string \<Rightarrow> nat" where
  "int_of_digits ds = foldl (\<lambda>a d. 10 * a + digit_value d) 0 ds"

text \<open>
  The regular expression \<^verbatim>\<open>Line\s+(\d+)\<close> under \<^verbatim>\<open>re.IGNORECASE\<close>, matched at the
  head of the text: the word, one or more white-space characters, one or more digits.
\<close>

definition match_line_here :: "string \<Rightarrow> nat option" where
  "match_line_here s =
     (case s of
        l # i # n # e # rest \<Rightarrow>
          if (l = CHR ''L'' \<or> l = CHR ''l'') \<and> (i = CHR ''I'' \<or> i = CHR ''i'')
             \<and> (n = CHR ''N'' \<or> n = CHR ''n'') \<and> (e = CHR ''E'' \<or> e = CHR ''e'')
             \<and> takeWhile isspace rest \<noteq> []
             \<and> takeWhile isdigit (dropWhile isspace rest) \<noteq> []
          then Some (int_of_digits (takeWhile isdigit (dropWhile isspace rest)))
          else None
      | _ \<Rightarrow> None)"

fun search_line :: "string \<Rightarrow> nat option" where
  "search_line [] = None"
| "search_line (c # cs) =
     (case match_line_here (c # cs) of Some n \<Rightarrow> Some n | None \<Rightarrow> search_line cs)"

definition parse_validator_error :: "string \<Rightarrow> string \<times> nat option" where
  "parse_validator_error error_output =
     (let error_message = strip error_output;
          error_line = search_line error_output;
          error_line = (case error_line of None \<Rightarrow> search_line error_output | Some n \<Rightarrow> Some n)
      in (error_message, error_line))"

definition validate_test_case :: "(string \<Rightarrow> proc_outcome) \<Rightarrow> string \<Rightarrow> validation" where
  "validate_test_case run input_data =
     (case run input_data of
        Exited returncode stdout stderr \<Rightarrow>
          if returncode = 0 then Valid
          else
            (let error_output = (if stderr \<noteq> [] then stderr else if stdout \<noteq> [] then stdout else []);
                 error_output = (if strip error_output = []
                                 then ''Validator returned exit code '' @ str_int returncode
                                 else error_output);
                 (error_message, error_line) = parse_validator_error error_output;
                 error_message = (if error_message = [] \<or> strip error_message = []
                                  then ''Validation failed (exit code '' @ str_int returncode @ '')''
                                  else error_message)
             in Invalid error_message error_line)
      | TimeoutExpired \<Rightarrow> Invalid (''Timeout ap'' @ [CHR 0xF3] @ ''s 5s'') None
      | Raised e \<Rightarrow> Invalid e None)"


fun validate_test_cases_batch ::
  "(nat \<Rightarrow> string \<Rightarrow> proc_outcome) \<Rightarrow> string list \<Rightarrow> nat \<Rightarrow> validation list \<times> nat" where
  "validate_test_cases_batch run [] t = ([], t)"
| "validate_test_cases_batch run (test_case # rest) t =
     (let result = validate_test_case (run t) test_case;
          (results, t') = validate_test_cases_batch run rest (t + 1)
      in (result # results, t'))"

text \<open>
  The batch of the generator runner stops once \<open>target_count\<close> results are held;
  \<^verbatim>\<open>max_cases or len(commands)\<close> takes the number of commands when \<open>max_cases\<close> is
  \<^verbatim>\<open>None\<close> or zero.
\<close>

fun generate_batch_loop ::
  "(nat \<Rightarrow> string list \<Rightarrow> proc_outcome) \<Rightarrow> int \<Rightarrow> string list \<Rightarrow> gen_case list \<Rightarrow> nat
     \<Rightarrow> gen_case list \<times> nat" where
  "generate_batch_loop run target_count [] results t = (results, t)"
| "generate_batch_loop run target_count (command # rest) results t =
     (if int (length results) \<ge> target_count then (results, t)
      else generate_batch_loop run target_count rest
             (results @ [generate_test_case (run t) command]) (t + 1))"

definition generate_test_cases_batch ::
  "(nat \<Rightarrow> string list \<Rightarrow> proc_outcome) \<Rightarrow> string list \<Rightarrow> int option \<Rightarrow> nat
     \<Rightarrow> gen_case list \<times> nat" where
  "generate_test_cases_batch run commands max_cases t =
     (let target_count = (case max_cases of
                            None \<Rightarrow> int (length commands)
                          | Some m \<Rightarrow> if m \<noteq> 0 then m else int (length commands))
      in generate_batch_loop run target_count commands [] t)"

section \<open>GeneratorValidatorSupervisionService (generator\_validator\_supervision\_service.py)\<close>

datatype exn = ValueError string | AttributeError string | UnboundLocalError | Failure string

datatype compile_result = CompileOk string | CompileError string

datatype agent_call =
  InferFormat | GenerateGenerator | ReviseGenerator | GenerateValidator | ReviseValidator
  | MinimalValidator

text \<open>
  The collaborators handed to the service, and the operating system underneath it.  Every
  call is answered from the moment \<open>t\<close> at which it is made (the number of calls made
  before it), so that two calls with the same arguments may be answered differently.
  An agent method answers with \<open>Inl\<close> when it raises.  The statement, constraints, oracle
  code and format schema are the same in every call and are not passed along.
\<close>

record env =
  clock :: "nat \<Rightarrow> real"
  infer_format :: "nat \<Rightarrow> exn option"
  generate_generator_program :: "nat \<Rightarrow> exn + string \<times> string list"
  revise_generator_program ::
    "nat \<Rightarrow> string \<Rightarrow> string list \<Rightarrow> string option \<Rightarrow> exn + string \<times> string list option"
  generate_validator_program :: "nat \<Rightarrow> exn + string"
  revise_validator_program ::
    "nat \<Rightarrow> string \<Rightarrow> string list \<Rightarrow> string list \<Rightarrow> string option \<Rightarrow> string list option
       \<Rightarrow> exn + string"
  generate_minimal_validator_code :: "nat \<Rightarrow> string list \<Rightarrow> exn + string"
  compile_generator :: "nat \<Rightarrow> string \<Rightarrow> compile_result"
  compile_validator :: "nat \<Rightarrow> string \<Rightarrow> compile_result"
  run_generator :: "nat \<Rightarrow> string \<Rightarrow> string list \<Rightarrow> proc_outcome"
  run_validator :: "nat \<Rightarrow> string \<Rightarrow> string \<Rightarrow> proc_outcome"
  run_oracle :: "nat \<Rightarrow> string \<Rightarrow> string \<Rightarrow> oracle_run"
  code_executor :: code_executor

record example =
  ex_input :: string
  ex_output :: string

record problem_bundle =
  problem_statement :: string
  oracle_code :: string
  examples :: "example list"
  target_count :: int

text \<open>A returned test case: the fields \<^verbatim>\<open>input\<close> and \<^verbatim>\<open>output\<close> of the dictionary.\<close>

record test_case =
  tc_input :: string
  tc_output :: string

record loop_state =
  generator_code :: "string option"
  validator_code :: "string option"
  generator_commands :: "string list"
  validation_errors :: "string list"
  compilation_errors :: "string option"
  sample_inputs :: "string list"
  validation_outputs :: "string list"
  generator_executable :: "string option"
  validator_executable :: "string option"
  valid_cases :: "string list"
  tick :: nat
  calls :: "agent_call list"

definition max_iterations :: nat where
  "max_iterations = 100"

definition max_compilation_fixes :: nat where
  "max_compilation_fixes = 3"

definition supervision_timeout_seconds :: real where
  "supervision_timeout_seconds = 600"

definition advance :: "loop_state \<Rightarrow> loop_state" where
  "advance s = s\<lparr>tick := tick s + 1\<rparr>"

definition called :: "agent_call \<Rightarrow> loop_state \<Rightarrow> loop_state" where
  "called c s = s\<lparr>tick := tick s + 1, calls := calls s @ [c]\<rparr>"

definition py_prefix :: "int \<Rightarrow> 'a list \<Rightarrow> 'a list" where
  "py_prefix n xs = (if n \<ge> 0 then take (nat n) xs else take (length xs - nat (- n)) xs)"

definition expected_outputs :: "problem_bundle \<Rightarrow> string list option" where
  "expected_outputs b =
     (if examples b \<noteq> [] then Some (map ex_output (filter (\<lambda>ex. ex_input ex \<noteq> []) (examples b)))
      else None)"


subsection \<open>\_compile\_with\_auto\_fix\<close>

datatype code_type = Gerador | Validador

definition compile_func :: "env \<Rightarrow> code_type \<Rightarrow> nat \<Rightarrow> string \<Rightarrow> compile_result" where
  "compile_func env code_type t code =
     (case code_type of
        Gerador \<Rightarrow> compile_generator env t code
      | Validador \<Rightarrow> compile_validator env t code)"

definition revise_func ::
  "env \<Rightarrow> code_type \<Rightarrow> string list option \<Rightarrow> loop_state \<Rightarrow> string \<Rightarrow> string \<Rightarrow> exn + string" where
  "revise_func env code_type expected s current_code compilation_error =
     (case code_type of
        Gerador \<Rightarrow>
          (case revise_generator_program env (tick s) current_code (validation_errors s)
                  (Some compilation_error) of
             Inl e \<Rightarrow> Inl e
           | Inr (code, commands) \<Rightarrow> Inr code)
      | Validador \<Rightarrow>
          revise_validator_program env (tick s) current_code (sample_inputs s)
            (validation_outputs s) (Some compilation_error) expected)"

definition revise_call :: "code_type \<Rightarrow> agent_call" where
  "revise_call code_type = (case code_type of Gerador \<Rightarrow> ReviseGenerator | Validador \<Rightarrow> ReviseValidator)"

text \<open>
  The \<^verbatim>\<open>while fix_attempt < self.max_compilation_fixes\<close> loop, counted down by the
  attempts that remain.  \<open>last_result\<close> is the variable \<^verbatim>\<open>compile_result\<close>, unbound until the
  first compilation.  The summary built by \<^verbatim>\<open>_extract_compilation_error_info\<close> is never
  used and is left out.
\<close>

fun fix_loop ::
  "env \<Rightarrow> code_type \<Rightarrow> string list option \<Rightarrow> nat \<Rightarrow> compile_result option \<Rightarrow> string \<Rightarrow> loop_state
     \<Rightarrow> compile_result option \<times> string \<times> loop_state" where
  "fix_loop env code_type expected 0 last_result current_code s = (last_result, current_code, s)"
| "fix_loop env code_type expected (Suc remaining) last_result current_code s =
     (let compile_result = compile_func env code_type (tick s) current_code;
          s1 = advance s
      in case compile_result of
           CompileOk exe \<Rightarrow> (Some compile_result, current_code, s1)
         | CompileError compilation_error \<Rightarrow>
             (case revise_func env code_type expected s1 current_code compilation_error of
                Inl e \<Rightarrow> (Some compile_result, current_code, called (revise_call code_type) s1)
              | Inr revised \<Rightarrow>
                  fix_loop env code_type expected remaining (Some compile_result) revised
                    (called (revise_call code_type) s1)))"

definition compile_with_auto_fix ::
  "env \<Rightarrow> code_type \<Rightarrow> string list option \<Rightarrow> string \<Rightarrow> loop_state
     \<Rightarrow> loop_state + compile_result \<times> string \<times> loop_state" where
  "compile_with_auto_fix env code_type expected code s =
     (case fix_loop env code_type expected max_compilation_fixes None code s of
        (None, current_code, s') \<Rightarrow> Inl s'
      | (Some compile_result, current_code, s') \<Rightarrow> Inr (compile_result, current_code, s'))"

subsection \<open>The steps of one iteration\<close>

text \<open>
  Each step answers \<open>Inl s\<close> when the iteration ends there (a \<^verbatim>\<open>continue\<close>, or an
  exception caught by the handler that closes the loop body, which continues as well) with
  the state as it is at that point, and \<open>Inr\<close> with the values the next step needs
  otherwise.
\<close>

definition synthesize_generator :: "env \<Rightarrow> loop_state \<Rightarrow> loop_state + string \<times> loop_state" where
  "synthesize_generator env s =
     (case generator_code s of
        None \<Rightarrow>
          (case generate_generator_program env (tick s) of
             Inl e \<Rightarrow> Inl (called GenerateGenerator s)
           | Inr (code, commands) \<Rightarrow>
               Inr (code, (called GenerateGenerator s)
                            \<lparr>generator_code := Some code, generator_commands := commands\<rparr>))
      | Some current \<Rightarrow>
          (case revise_generator_program env (tick s) current (validation_errors s)
                  (compilation_errors s) of
             Inl e \<Rightarrow> Inl (called ReviseGenerator s)
           | Inr (code, commands) \<Rightarrow>
               Inr (code, (called ReviseGenerator s)
                            \<lparr>generator_code := Some code,
                             generator_commands :=
                               (case commands of None \<Rightarrow> generator_commands s | Some c \<Rightarrow> c)\<rparr>)))"

definition compile_generator_step ::
  "env \<Rightarrow> string \<Rightarrow> loop_state \<Rightarrow> loop_state + string \<times> loop_state" where
  "compile_generator_step env code s =
     (case compile_with_auto_fix env Gerador None code s of
        Inl s' \<Rightarrow> Inl s'
      | Inr (compile_result, code', s') \<Rightarrow>
          (let s1 = s'\<lparr>generator_code := Some code'\<rparr> in
           case compile_result of
             CompileError err \<Rightarrow>
               Inl (s1\<lparr>compilation_errors := Some err, validation_errors := []\<rparr>)
           | CompileOk exe \<Rightarrow>
               Inr (exe, s1\<lparr>generator_executable := Some exe, compilation_errors := None\<rparr>)))"

definition synthesize_validator ::
  "env \<Rightarrow> problem_bundle \<Rightarrow> loop_state \<Rightarrow> loop_state + string \<times> loop_state" where
  "synthesize_validator env b s =
     (case validator_code s of
        None \<Rightarrow>
          (case generate_validator_program env (tick s) of
             Inl e \<Rightarrow> Inl (called GenerateValidator s)
           | Inr code \<Rightarrow> Inr (code, (called GenerateValidator s)\<lparr>validator_code := Some code\<rparr>))
      | Some current \<Rightarrow>
          (case revise_validator_program env (tick s) current (sample_inputs s)
                  (validation_outputs s) (compilation_errors s) (expected_outputs b) of
             Inl e \<Rightarrow> Inl (called ReviseValidator s)
           | Inr code \<Rightarrow> Inr (code, (called ReviseValidator s)\<lparr>validator_code := Some code\<rparr>)))"

definition compile_validator_step ::
  "env \<Rightarrow> problem_bundle \<Rightarrow> nat \<Rightarrow> string \<Rightarrow> loop_state \<Rightarrow> loop_state + string \<times> loop_state" where
  "compile_validator_step env b iteration code s =
     (case compile_with_auto_fix env Validador (expected_outputs b) code s of
        Inl s' \<Rightarrow> Inl s'
      | Inr (val_compile_result, code', s') \<Rightarrow>
          (let s1 = s'\<lparr>validator_code := Some code'\<rparr> in
           case val_compile_result of
             CompileOk exe \<Rightarrow>
               Inr (exe, s1\<lparr>validator_executable := Some exe, compilation_errors := None\<rparr>)
           | CompileError val_compilation_errors \<Rightarrow>
               if iteration \<ge> 1 \<and> sample_inputs s1 \<noteq> [] then
                 (case generate_minimal_validator_code env (tick s1) (sample_inputs s1) of
                    Inl e \<Rightarrow>
                      Inl ((called MinimalValidator s1)
                             \<lparr>compilation_errors := Some val_compilation_errors,
                              validation_errors := []\<rparr>)
                  | Inr minimal \<Rightarrow>
                      (let s2 = (called MinimalValidator s1)\<lparr>validator_code := Some minimal\<rparr> in
                       case compile_validator env (tick s2) minimal of
                         CompileOk exe \<Rightarrow>
                           Inr (exe, (advance s2)\<lparr>validator_executable := Some exe,
                                                  compilation_errors := None\<rparr>)
                       | CompileError err \<Rightarrow>
                           Inl ((advance s2)\<lparr>compilation_errors := Some err,
                                             validation_errors := []\<rparr>)))
               else Inl (s1\<lparr>compilation_errors := Some val_compilation_errors,
                             validation_errors := []\<rparr>)))"

definition with_line :: "string \<Rightarrow> nat option \<Rightarrow> string" where
  "with_line error_msg error_line =
     (case error_line of
        None \<Rightarrow> error_msg
      | Some n \<Rightarrow> if n \<noteq> 0 then ''Line '' @ str_nat n @ '': '' @ error_msg else error_msg)"

definition detailed_error :: "nat \<Rightarrow> string \<Rightarrow> string \<Rightarrow> string" where
  "detailed_error i sample_input error_msg =
     (let input_lines = split_on newline sample_input in
      ''Exemplo '' @ str_nat (i + 1) @ '':'' @ [newline]
      @ ''  Input (texto):'' @ [newline] @ sample_input @ [newline]
      @ ''  Input (repr, mostra caracteres especiais): '' @ repr sample_input @ [newline]
      @ ''  N'' @ [CHR 0xFA] @ ''mero de linhas: '' @ str_nat (length input_lines) @ [newline]
      @ ''  Linhas do input:'' @ [newline]
      @ concat (map (\<lambda>(j, line). ''    Linha '' @ str_nat j @ '': '' @ repr line @ [newline])
                  (zip [1..<Suc (length input_lines)] input_lines))
      @ ''  Erro do validador: '' @ error_msg @ [newline])"

definition sample_feedback :: "string list \<Rightarrow> validation list \<Rightarrow> string list" where
  "sample_feedback samples sample_validations =
     (let indexed = zip [0..<length samples] (zip samples sample_validations);
          validation_outputs =
            map (\<lambda>(i, sample_input, v).
                   case v of Valid \<Rightarrow> [] | Invalid msg line \<Rightarrow> with_line msg line) indexed;
          detailed_errors =
            concat (map (\<lambda>(i, sample_input, v).
                   case v of Valid \<Rightarrow> []
                   | Invalid msg line \<Rightarrow> [detailed_error i sample_input (with_line msg line)])
                 indexed)
      in if detailed_errors \<noteq> [] then detailed_errors else validation_outputs)"

definition failed :: "validation list \<Rightarrow> validation list" where
  "failed vs = filter (\<lambda>v. v \<noteq> Valid) vs"

text \<open>
  Step 5.  At iteration 3 and later a rejected example makes the supervisor ask the validator
  agent for the minimal validator; whatever goes wrong on that path is caught and the
  step goes on with what it had.  The files written for debugging on a crash are left out.
\<close>

definition minimal_validator_retry ::
  "env \<Rightarrow> string list \<Rightarrow> string \<Rightarrow> validation list \<Rightarrow> loop_state
     \<Rightarrow> string \<times> validation list \<times> loop_state" where
  "minimal_validator_retry env samples validator_exe sample_validations s =
     (case generate_minimal_validator_code env (tick s) samples of
        Inl e \<Rightarrow> (validator_exe, sample_validations, called MinimalValidator s)
      | Inr minimal \<Rightarrow>
          (let s1 = (called MinimalValidator s)\<lparr>validator_code := Some minimal\<rparr> in
           case compile_validator env (tick s1) minimal of
             CompileOk exe \<Rightarrow>
               (let s2 = (advance s1)\<lparr>validator_executable := Some exe\<rparr>;
                    (revalidated, t') =
                       validate_test_cases_batch (\<lambda>t. run_validator env t exe) samples (tick s2)
                in (exe, revalidated, s2\<lparr>tick := t'\<rparr>))
           | CompileError err \<Rightarrow> (validator_exe, sample_validations, advance s1)))"

definition validate_examples ::
  "env \<Rightarrow> problem_bundle \<Rightarrow> nat \<Rightarrow> string \<Rightarrow> loop_state \<Rightarrow> loop_state + string \<times> loop_state" where
  "validate_examples env b iteration validator_exe s =
     (if examples b \<noteq> [] then
        (let samples = filter (\<lambda>i. i \<noteq> []) (map ex_input (examples b));
             s1 = s\<lparr>sample_inputs := samples\<rparr>
         in if samples \<noteq> [] then
              (let (sample_validations, t') =
                     validate_test_cases_batch (\<lambda>t. run_validator env t validator_exe) samples
                       (tick s1);
                   s2 = s1\<lparr>tick := t'\<rparr>;
                   (validator_exe', sample_validations', s3) =
                     (if failed sample_validations \<noteq> [] \<and> iteration \<ge> 3
                      then minimal_validator_retry env samples validator_exe sample_validations s2
                      else (validator_exe, sample_validations, s2))
               in if failed sample_validations' \<noteq> [] then
                    Inl (s3\<lparr>validation_outputs := sample_feedback samples sample_validations'\<rparr>)
                  else Inr (validator_exe', s3))
            else Inr (validator_exe, s1))
      else Inr (validator_exe, s))"

definition generate_candidates ::
  "env \<Rightarrow> problem_bundle \<Rightarrow> string \<Rightarrow> loop_state \<Rightarrow> loop_state + string list \<times> loop_state" where
  "generate_candidates env b generator_exe s =
     (let (generation_results, t') =
            generate_test_cases_batch (\<lambda>t. run_generator env t generator_exe)
              (generator_commands s) (Some (target_count b * 2)) (tick s);
          s1 = s\<lparr>tick := t'\<rparr>;
          generated_inputs =
            concat (map (\<lambda>r. case r of GenOk input_data \<Rightarrow> (if input_data \<noteq> [] then [input_data] else [])
                                      | GenFailed err \<Rightarrow> []) generation_results)
      in if generated_inputs = [] then
           Inl (s1\<lparr>validation_errors := [''Nenhum caso de teste foi gerado com sucesso'']\<rparr>)
         else Inr (generated_inputs, s1))"


text \<open>
  The oracle pass (written twice in the source, inside the loop and after it, with the same
  body): run the oracle on each input in order and keep the pairs whose run succeeded with
  a non-empty output.
\<close>

fun oracle_pass :: "env \<Rightarrow> string \<Rightarrow> string list \<Rightarrow> nat \<Rightarrow> test_case list \<times> nat" where
  "oracle_pass env code [] t = ([], t)"
| "oracle_pass env code (input_data # rest) t =
     (let result = execute (code_executor env) (run_oracle env t code input_data);
          (test_cases, t') = oracle_pass env code rest (t + 1)
      in (case result of
            ExecOk out \<Rightarrow>
              if out \<noteq> [] then \<lparr>tc_input = input_data, tc_output = out\<rparr> # test_cases
              else test_cases
          | ExecFailed err \<Rightarrow> test_cases, t'))"

definition format_info :: "problem_bundle \<Rightarrow> string \<Rightarrow> string" where
  "format_info b original_input =
     [newline] @ ''  Caso gerado (repr): '' @ repr original_input
     @ [newline] @ ''  Caso gerado termina com newline? ''
     @ (if endswith original_input [newline] then ''SIM'' else ''N'' @ [CHR 0xC3] @ ''O'')
     @ (case examples b of
          [] \<Rightarrow> []
        | ex # rest \<Rightarrow>
            if ex_input ex \<noteq> [] then
              [newline] @ ''  Exemplo do problema (repr): '' @ repr (ex_input ex)
              @ [newline] @ ''  Exemplo termina com newline? ''
              @ (if endswith (ex_input ex) [newline] then ''SIM'' else ''N'' @ [CHR 0xC3] @ ''O'')
            else [])"

text \<open>
  Step 7, the loop over the validation results.  \<open>new_valid_cases\<close>, \<open>invalid_cases\<close>
  and \<open>validation_errors\<close> are the three lists the loop fills; a candidate accepted on
  the retry is appended to \<open>valid_cases\<close> of the state at once.
\<close>

fun classify ::
  "env \<Rightarrow> problem_bundle \<Rightarrow> string \<Rightarrow> (string \<times> validation) list \<Rightarrow> string list \<Rightarrow> string list
     \<Rightarrow> string list \<Rightarrow> loop_state \<Rightarrow> string list \<times> string list \<times> string list \<times> loop_state" where
  "classify env b validator_exe [] new_valid_cases invalid_cases errors s =
     (new_valid_cases, invalid_cases, errors, s)"
| "classify env b validator_exe ((generated, Valid) # rest) new_valid_cases invalid_cases errors s =
     classify env b validator_exe rest (new_valid_cases @ [generated]) invalid_cases errors s"
| "classify env b validator_exe ((generated, Invalid msg line) # rest) new_valid_cases
       invalid_cases errors s =
     (let invalid_cases = invalid_cases @ [generated];
          error_msg = with_line (if msg \<noteq> [] then msg else ''Erro desconhecido'') line
      in if contains error_msg ''EOLN'' \<or> contains error_msg ''Expected'' then
           (let original_input = generated;
                normalized_input =
                  (if \<not> endswith original_input [newline] then original_input @ [newline]
                   else rstrip_newlines original_input)
            in if normalized_input \<noteq> [] then
                 (let revalidation =
                        validate_test_case (run_validator env (tick s) validator_exe) normalized_input;
                      s1 = advance s
                  in if revalidation = Valid then
                       classify env b validator_exe rest new_valid_cases invalid_cases errors
                         (s1\<lparr>valid_cases := valid_cases s1 @ [normalized_input]\<rparr>)
                     else
                       classify env b validator_exe rest new_valid_cases invalid_cases
                         (errors @ [error_msg @ format_info b original_input]) s1)
               else
                 classify env b validator_exe rest new_valid_cases invalid_cases
                   (errors @ [error_msg @ format_info b original_input]) s)
         else classify env b validator_exe rest new_valid_cases invalid_cases (errors @ [error_msg]) s)"

definition diversity_errors :: "nat \<Rightarrow> string \<Rightarrow> string list" where
  "diversity_errors n repeated =
     [''DIVERSIDADE INSUFICIENTE: Todos os '' @ str_nat n @ '' casos gerados t'' @ [CHR 0xEA]
        @ ''m a mesma sa'' @ [CHR 0xED] @ ''da esperada.'',
      ''Sa'' @ [CHR 0xED] @ ''da repetida: '' @ take 100 (strip repeated),
      ''O gerador deve criar casos que cubram diferentes cen'' @ [CHR 0xE1]
        @ ''rios e produzam sa'' @ [CHR 0xED] @ ''das variadas.'',
      ''Analise o c'' @ [CHR 0xF3] @ ''digo or'' @ [CHR 0xE1]
        @ ''culo para identificar quais condi'' @ [CHR 0xE7, CHR 0xF5]
        @ ''es levam a diferentes sa'' @ [CHR 0xED] @ ''das.'',
      ''Gere casos que testem TODOS os poss'' @ [CHR 0xED]
        @ ''veis caminhos de execu'' @ [CHR 0xE7, CHR 0xE3]
        @ ''o (ex: YES e NO, diferentes ranges, edge cases).'']"

datatype flow = Continue loop_state | Break loop_state

text \<open>
  The end of the loop body: the two \<^verbatim>\<open>continue\<close>s that go for more candidates, and the
  oracle run with the diversity check, reached only past both.
\<close>

definition diversity_check :: "env \<Rightarrow> problem_bundle \<Rightarrow> loop_state \<Rightarrow> flow" where
  "diversity_check env b s =
     (if int (length (valid_cases s)) \<ge> target_count b then
        (let (test_cases, t') =
               oracle_pass env (oracle_code b) (py_prefix (target_count b) (valid_cases s)) (tick s);
             s1 = s\<lparr>tick := t'\<rparr>
         in if test_cases \<noteq> [] then
              (let unique_outputs = remdups (map (\<lambda>tc. strip (tc_output tc)) test_cases) in
               if length unique_outputs = 1 then
                 Continue (s1\<lparr>validation_errors :=
                                diversity_errors (length test_cases) (hd unique_outputs),
                              valid_cases := []\<rparr>)
               else Break s1)
            else Continue s1)
      else Continue s)"

definition filter_candidates ::
  "env \<Rightarrow> problem_bundle \<Rightarrow> string \<Rightarrow> string list \<Rightarrow> loop_state \<Rightarrow> flow" where
  "filter_candidates env b validator_exe generated_inputs s =
     (let (validation_results, t') =
            validate_test_cases_batch (\<lambda>t. run_validator env t validator_exe) generated_inputs
              (tick s);
          (new_valid_cases, invalid_cases, errors, s1) =
            classify env b validator_exe (zip generated_inputs validation_results) [] [] []
              (s\<lparr>tick := t'\<rparr>);
          s2 = s1\<lparr>validation_errors := errors, valid_cases := valid_cases s1 @ new_valid_cases\<rparr>
      in if length invalid_cases = 0 then Continue (s2\<lparr>validation_errors := []\<rparr>)
         else if length new_valid_cases > 0 then Continue (s2\<lparr>validation_errors := []\<rparr>)
         else diversity_check env b s2)"

definition loop_body :: "env \<Rightarrow> problem_bundle \<Rightarrow> nat \<Rightarrow> loop_state \<Rightarrow> flow" where
  "loop_body env b iteration s =
     (case synthesize_generator env s of
        Inl s1 \<Rightarrow> Continue s1
      | Inr (generator_src, s1) \<Rightarrow>
     (case compile_generator_step env generator_src s1 of
        Inl s2 \<Rightarrow> Continue s2
      | Inr (generator_exe, s2) \<Rightarrow>
     (case synthesize_validator env b s2 of
        Inl s3 \<Rightarrow> Continue s3
      | Inr (validator_src, s3) \<Rightarrow>
     (case compile_validator_step env b iteration validator_src s3 of
        Inl s4 \<Rightarrow> Continue s4
      | Inr (validator_exe, s4) \<Rightarrow>
     (case validate_examples env b iteration validator_exe s4 of
        Inl s5 \<Rightarrow> Continue s5
      | Inr (validator_exe', s5) \<Rightarrow>
     (case generate_candidates env b generator_exe s5 of
        Inl s6 \<Rightarrow> Continue s6
      | Inr (generated_inputs, s6) \<Rightarrow>
          filter_candidates env b validator_exe' generated_inputs s6))))))"

subsection \<open>The loop and the function\<close>

function supervision_loop ::
  "env \<Rightarrow> problem_bundle \<Rightarrow> real \<Rightarrow> nat \<Rightarrow> loop_state \<Rightarrow> nat \<times> loop_state" where
  "supervision_loop env b start_time iteration s =
     (let elapsed_time = clock env (tick s) - start_time;
          s = advance s
      in if elapsed_time \<ge> supervision_timeout_seconds then (iteration, s)
         else if int (length (valid_cases s)) \<ge> target_count b then (iteration, s)
         else if iteration + 1 > max_iterations then (iteration + 1, s)
         else (case loop_body env b (iteration + 1) s of
                 Break s' \<Rightarrow> (iteration + 1, s')
               | Continue s' \<Rightarrow> supervision_loop env b start_time (iteration + 1) s'))"
  by pat_completeness auto
termination
  by (relation "measure (\<lambda>(env, b, start_time, iteration, s). max_iterations + 1 - iteration)") auto

declare supervision_loop.simps [simp del]

definition initial_state :: loop_state where
  "initial_state =
     \<lparr>generator_code = None, validator_code = None, generator_commands = [],
      validation_errors = [], compilation_errors = None, sample_inputs = [],
      validation_outputs = [], generator_executable = None, validator_executable = None,
      valid_cases = [], tick = 0, calls = []\<rparr>"

text \<open>
  The state in which the loop ends: the clock is read, the format is inferred (a failure is
  caught and the run goes on without a schema), and the loop runs.
\<close>

definition supervise :: "env \<Rightarrow> problem_bundle \<Rightarrow> nat \<times> loop_state" where
  "supervise env b =
     (let start_time = clock env 0;
          s0 = called InferFormat (advance initial_state)
      in supervision_loop env b start_time 0 s0)"

record suite =
  test_cases :: "test_case list"
  total_generated :: nat
  final_generator_code :: "string option"
  final_validator_code :: "string option"
  final_generator_commands :: "string list"
  iterations :: nat

definition no_valid_cases_message :: string where
  "no_valid_cases_message =
     ''Nenhum caso de teste v'' @ [CHR 0xE1] @ ''lido foi gerado ap'' @ [CHR 0xF3]
     @ ''s todas as itera'' @ [CHR 0xE7, CHR 0xF5] @ ''es''"

definition generate_test_cases :: "env \<Rightarrow> problem_bundle \<Rightarrow> exn + suite" where
  "generate_test_cases env b =
     (case supervise env b of (iteration, s) \<Rightarrow>
        if valid_cases s = [] then Inl (ValueError no_valid_cases_message)
        else
          (let kept = py_prefix (target_count b) (valid_cases s);
               (cases, t') = oracle_pass env (oracle_code b) kept (tick s)
           in Inr \<lparr>test_cases = cases, total_generated = length cases,
                   final_generator_code = generator_code s,
                   final_validator_code = validator_code s,
                   final_generator_commands = generator_commands s,
                   iterations = iteration\<rparr>))"

definition agent_calls :: "env \<Rightarrow> problem_bundle \<Rightarrow> agent_call list" where
  "agent_calls env b = calls (snd (supervise env b))"


section \<open>Commands of the generator (code\_extraction\_service.py, generator\_agent\_service.py)\<close>

text \<open>
  \<open>find_sub sub s\<close> is the text of \<open>s\<close> before the first occurrence of \<open>sub\<close>, when
  there is one.
\<close>

fun find_sub :: "string \<Rightarrow> string \<Rightarrow> string option" where
  "find_sub sub [] = (if sub = [] then Some [] else None)"
| "find_sub sub (c # cs) =
     (if startswith (c # cs) sub then Some []
      else (case find_sub sub cs of None \<Rightarrow> None | Some found \<Rightarrow> Some (c # found)))"

text \<open>
  The regular expression \<^verbatim>\<open>/\*\s*COMMANDS:(.*?)\*/\<close> with \<^verbatim>\<open>re.DOTALL\<close>, at the head of
  the text and then searched from left to right; the answer is group 1.
\<close>

definition match_commands_here :: "string \<Rightarrow> string option" where
  "match_commands_here s =
     (if startswith s ''/*'' then
        (let after_ws = dropWhile isspace (drop 2 s) in
         if startswith after_ws ''COMMANDS:'' then find_sub ''*/'' (drop 9 after_ws) else None)
      else None)"

fun search_commands :: "string \<Rightarrow> string option" where
  "search_commands [] = None"
| "search_commands (c # cs) =
     (case match_commands_here (c # cs) of Some g \<Rightarrow> Some g | None \<Rightarrow> search_commands cs)"

definition gen_lines :: "string list \<Rightarrow> string list" where
  "gen_lines lines = filter (\<lambda>line. startswith line ''./gen'') (map strip lines)"

definition extract_commands :: "string \<Rightarrow> string list" where
  "extract_commands code =
     (let commands = (case search_commands code of
                        Some g \<Rightarrow> gen_lines (split_on newline (strip g))
                      | None \<Rightarrow> [])
      in if commands = [] then gen_lines (split_on newline code) else commands)"

text \<open>
  \<^verbatim>\<open>REGEX_OPT_PARAMS = opt\s*<[^>]+>\s*\(\s*"([^"]+)"\<close>.  \<open>match_opt_here\<close> answers group 1
  and the number of characters the match takes.
\<close>

definition match_opt_here :: "string \<Rightarrow> (string \<times> nat) option" where
  "match_opt_here s =
     (if startswith s ''opt'' then
        (let r1 = dropWhile isspace (drop 3 s) in
         case r1 of
           [] \<Rightarrow> None
         | c1 # r2 \<Rightarrow>
             if c1 \<noteq> CHR ''<'' then None
             else
               (let targ = takeWhile (\<lambda>c. c \<noteq> CHR ''>'') r2;
                    r3 = dropWhile (\<lambda>c. c \<noteq> CHR ''>'') r2
                in if targ = [] \<or> r3 = [] then None
                   else
                     (let r4 = dropWhile isspace (tl r3) in
                      case r4 of
                        [] \<Rightarrow> None
                      | c4 # r5 \<Rightarrow>
                          if c4 \<noteq> CHR ''('' then None
                          else
                            (let r6 = dropWhile isspace r5 in
                             case r6 of
                               [] \<Rightarrow> None
                             | c6 # r7 \<Rightarrow>
                                 if c6 \<noteq> CHR 0x22 then None
                                 else
                                   (let name = takeWhile (\<lambda>c. c \<noteq> CHR 0x22) r7;
                                        r8 = dropWhile (\<lambda>c. c \<noteq> CHR 0x22) r7
                                    in if name = [] \<or> r8 = [] then None
                                       else Some (name, length s - length (tl r8)))))))
      else None)"

fun findall_opt :: "nat \<Rightarrow> string \<Rightarrow> string list" where
  "findall_opt skip [] = []"
| "findall_opt skip (c # cs) =
     (if skip > 0 then findall_opt (skip - 1) cs
      else (case match_opt_here (c # cs) of
              Some (name, taken) \<Rightarrow> name # findall_opt (taken - 1) cs
            | None \<Rightarrow> findall_opt 0 cs))"

text \<open>The set \<open>opt_params\<close> is kept as a list without repetitions.\<close>

definition extract_opt_params :: "string \<Rightarrow> string list" where
  "extract_opt_params code = remdups (findall_opt 0 code)"

text \<open>
  \<^verbatim>\<open>REGEX_PARAM_PATTERN = -([a-zA-Z_][a-zA-Z0-9_]*)\<close>, all matches from left to right.
\<close>

definition name_start :: "char \<Rightarrow> bool" where
  "name_start c = (let n = (of_char c :: nat) in
                     (65 \<le> n \<and> n \<le> 90) \<or> (97 \<le> n \<and> n \<le> 122) \<or> n = 95)"

definition name_char :: "char \<Rightarrow> bool" where
  "name_char c = (name_start c \<or> isdigit c)"

datatype scan = Idle | AfterDash | InName string

fun findall_params :: "scan \<Rightarrow> string \<Rightarrow> string list" where
  "findall_params Idle [] = []"
| "findall_params AfterDash [] = []"
| "findall_params (InName acc) [] = [acc]"
| "findall_params Idle (c # cs) =
     (if c = CHR ''-'' then findall_params AfterDash cs else findall_params Idle cs)"
| "findall_params AfterDash (c # cs) =
     (if name_start c then findall_params (InName [c]) cs
      else if c = CHR ''-'' then findall_params AfterDash cs
      else findall_params Idle cs)"
| "findall_params (InName acc) (c # cs) =
     (if name_char c then findall_params (InName (acc @ [c])) cs
      else acc # (if c = CHR ''-'' then findall_params AfterDash cs else findall_params Idle cs))"

definition lower_char :: "char \<Rightarrow> char" where
  "lower_char c = (let n = (of_char c :: nat) in
                     if (65 \<le> n \<and> n \<le> 90) \<or> (192 \<le> n \<and> n \<le> 222 \<and> n \<noteq> 215)
                     then char_of (n + 32) else c)"

definition lower :: "string \<Rightarrow> string" where
  "lower s = map lower_char s"

text \<open>The value \<^verbatim>\<open>_generate_fallback_commands\<close> gives parameter \<open>param\<close> in command \<open>i\<close>.\<close>

definition fallback_value :: "nat \<Rightarrow> string \<Rightarrow> nat" where
  "fallback_value i param =
     (if lower param \<in> {''t'', ''testcases'', ''tests''} then max 1 (min 5 ((i mod 5) + 1))
      else if contains (lower param) ''min'' then (if i < 10 then 1 else 10)
      else if contains (lower param) ''max'' then
        (if i < 5 then 10 else if i < 10 then 100 else if i < 15 then 1000 else 10000)
      else if contains (lower param) ''sum'' then (if i < 10 then 100 else 200000)
      else (i mod 20) + 1)"

definition join :: "string \<Rightarrow> string list \<Rightarrow> string" where
  "join sep parts = (case parts of [] \<Rightarrow> [] | p # ps \<Rightarrow> p @ concat (map (\<lambda>q. sep @ q) ps))"

definition generate_fallback_commands :: "string list \<Rightarrow> string list" where
  "generate_fallback_commands opt_params =
     (let sorted_params = sort opt_params in
      map (\<lambda>i. join '' '' (''./gen'' #
                  map (\<lambda>param. ''-'' @ param @ '' '' @ str_nat (fallback_value i param)) sorted_params))
        [0..<20])"

text \<open>
  \<^verbatim>\<open>_validate_commands\<close>: keep the commands all of whose parameters are declared; when none
  is left and some parameter is declared, the fallback commands.
\<close>

definition validate_commands :: "string \<Rightarrow> string list \<Rightarrow> string list" where
  "validate_commands code commands =
     (let opt_params = extract_opt_params code;
          valid_commands =
            filter (\<lambda>cmd. let cmd_params = remdups (findall_params Idle cmd);
                              unused_params = filter (\<lambda>p. \<not> List.member opt_params p) cmd_params
                          in unused_params = []) commands
      in if valid_commands = [] \<and> opt_params \<noteq> [] then generate_fallback_commands opt_params
         else valid_commands)"

text \<open>
  What \<^verbatim>\<open>generate_generator_program\<close> does with the code it has extracted from the
  response of the model (and completed, when it was partial): the last statements of the
  method, from the extraction of the commands to the \<^verbatim>\<open>return\<close>.
\<close>

definition generator_commands_of :: "string \<Rightarrow> string list" where
  "generator_commands_of generator_src =
     (let generator_commands = extract_commands generator_src
      in if generator_commands = [] then
           generate_fallback_commands (extract_opt_params generator_src)
         else generator_commands)"

section \<open>GeneratorExecutorService.calculate\_seed\<close>

text \<open>
  \<open>md5_hexdigest\<close> stands for \<^verbatim>\<open>hashlib.md5(command.encode()).hexdigest()\<close>; the seed is
  the number its first eight hexadecimal digits write.
\<close>

definition hex_value :: "char \<Rightarrow> nat" where
  "hex_value c = (let n = (of_char c :: nat) in if n \<ge> 97 then n - 87 else n - 48)"

definition calculate_seed :: "(string \<Rightarrow> string) \<Rightarrow> string \<Rightarrow> nat" where
  "calculate_seed md5_hexdigest command =
     foldl (\<lambda>a d. 16 * a + hex_value d) 0 (take 8 (md5_hexdigest command))"

section \<open>Scenarios\<close>

text \<open>
  Concrete collaborators for the runs evaluated below.  The agents answer as the services of
  the repository do where that matters: \<^verbatim>\<open>revise_generator_program\<close> ends in a call of
  \<^verbatim>\<open>self._extract_commands_from_code\<close> (or, without the strict delimiters, of
  \<^verbatim>\<open>self._extract_code_without_markdown\<close>) and \<^verbatim>\<open>ValidatorAgentService\<close> has no attribute
  \<^verbatim>\<open>generate_minimal_validator_code\<close>; neither method is defined, so both calls raise
  AttributeError.  The generator prints its arguments, the time stands still unless said
  otherwise.
\<close>

definition missing_method :: exn where
  "missing_method = AttributeError ''no such attribute''"

definition scenario :: "(nat \<Rightarrow> real) \<Rightarrow> (string \<Rightarrow> proc_outcome) \<Rightarrow> (string \<Rightarrow> string) \<Rightarrow> env" where
  "scenario time validator oracle =
     \<lparr>clock = time,
      infer_format = (\<lambda>t. None),
      generate_generator_program =
        (\<lambda>t. Inr (''int main() {}'', [''./gen -n 1'', ''./gen -n 2''])),
      revise_generator_program = (\<lambda>t code errors compilation. Inl missing_method),
      generate_validator_program = (\<lambda>t. Inr ''int main() {}''),
      revise_validator_program =
        (\<lambda>t code samples outputs compilation expected. Inl (Failure ''no answer'')),
      generate_minimal_validator_code = (\<lambda>t samples. Inl missing_method),
      compile_generator = (\<lambda>t code. CompileOk ''/tmp/gen''),
      compile_validator = (\<lambda>t code. CompileOk ''/tmp/val''),
      run_generator = (\<lambda>t exe args. Exited 0 (concat args @ [newline]) []),
      run_validator = (\<lambda>t exe. validator),
      run_oracle = (\<lambda>t code stdin. Spawned (Exited 0 (oracle stdin) [])),
      code_executor = CodeExecutor 5\<rparr>"

definition accept_all :: "string \<Rightarrow> proc_outcome" where
  "accept_all stdin = Exited 0 [] []"

definition reject_all :: "string \<Rightarrow> proc_outcome" where
  "reject_all stdin = Exited 3 [] ''FAIL wrong format''"

definition reject_final_newline :: "string \<Rightarrow> proc_outcome" where
  "reject_final_newline stdin =
     (if endswith stdin [newline] then Exited 3 [] ''FAIL Expected EOF (stdin, line 2)''
      else Exited 0 [] [])"

definition always_yes :: "string \<Rightarrow> string" where
  "always_yes stdin = ''YES'' @ [newline]"

definition blank_on_first :: "string \<Rightarrow> string" where
  "blank_on_first stdin = (if stdin = ''-n1'' @ [newline] then [newline] else ''YES'' @ [newline])"

definition padded :: "string \<Rightarrow> string" where
  "padded stdin = ''  5'' @ [newline]"

definition echo :: "string \<Rightarrow> string" where
  "echo stdin = stdin"

definition two_cases :: problem_bundle where
  "two_cases = \<lparr>problem_statement = ''does n > 0?'', oracle_code = ''print(1)'', examples = [],
                 target_count = 2\<rparr>"

definition with_example :: problem_bundle where
  "with_example = two_cases\<lparr>examples := [\<lparr>ex_input = ''2 3'' @ [newline], ex_output = ''5'' @ [newline]\<rparr>]\<rparr>"

definition silent_agent :: "env \<Rightarrow> env" where
  "silent_agent env = env\<lparr>generate_generator_program := (\<lambda>t. Inl (Failure ''no answer''))\<rparr>"

definition late_agent :: "env \<Rightarrow> env" where
  "late_agent env =
     env\<lparr>generate_generator_program :=
           (\<lambda>t. if t < 7 then Inl (Failure ''no answer'')
                else Inr (''int main() {}'', [''./gen -n 1'', ''./gen -n 2'']))\<rparr>"

text \<open>A generator source whose command block names a flag the program does not declare.\<close>

definition undeclared_flag_source :: string where
  "undeclared_flag_source =
     ''#include '' @ [CHR 0x22] @ ''testlib.h'' @ [CHR 0x22] @ [newline]
     @ ''/* COMMANDS:'' @ [newline]
     @ ''./gen -n 5 -seed 7'' @ [newline]
     @ ''./gen -n 9'' @ [newline]
     @ ''*/'' @ [newline]
     @ ''int main(int argc, char* argv[]) {'' @ [newline]
     @ ''    registerGen(argc, argv, 1);'' @ [newline]
     @ ''    int n = opt<int>('' @ [CHR 0x22] @ ''n'' @ [CHR 0x22] @ '');'' @ [newline]
     @ ''    println(rnd.next(1, n));'' @ [newline]
     @ ''}''"

section \<open>Properties of the brace balancing pass\<close>

lemma opens_append [simp]: "opens (xs @ ys) = opens xs + opens ys"
  by (simp add: opens_def)

lemma closes_append [simp]: "closes (xs @ ys) = closes xs + closes ys"
  by (simp add: closes_def)

lemma opens_Nil [simp]: "opens [] = 0"
  by (simp add: opens_def)

lemma closes_Nil [simp]: "closes [] = 0"
  by (simp add: closes_def)

lemma closes_take_le: "closes (take n s) \<le> closes s"
proof -
  have "closes s = closes (take n s) + closes (drop n s)"
    by (metis append_take_drop_id closes_append)
  then show ?thesis by simp
qed

lemma no_early_close_snoc:
  assumes "no_early_close s" and "closes (s @ t) \<le> opens s"
  shows "no_early_close (s @ t)"
proof -
  have "closes (take n (s @ t)) \<le> opens (take n (s @ t))" for n
  proof (cases "n \<le> length s")
    case True
    then show ?thesis using assms(1) by (simp add: no_early_close_def)
  next
    case False
    then have tk: "take n (s @ t) = s @ take (n - length s) t" by simp
    have "closes (take (n - length s) t) \<le> closes t" by (rule closes_take_le)
    then have "closes (s @ take (n - length s) t) \<le> opens s" using assms(2) by simp
    also have "\<dots> \<le> opens (s @ take (n - length s) t)" by simp
    finally show ?thesis unfolding tk .
  qed
  then show ?thesis by (simp add: no_early_close_def)
qed

text \<open>The loop invariant: the count of open braces is the surplus of the kept text.\<close>

definition brace_inv :: "string \<times> nat \<times> nat \<Rightarrow> bool" where
  "brace_inv st = (case st of (b, oc, r) \<Rightarrow> closes b + oc = opens b \<and> no_early_close b)"

lemma brace_step_inv: "brace_inv st \<Longrightarrow> brace_inv (brace_step ch st)"
proof -
  assume inv: "brace_inv st"
  obtain b oc r where st: "st = (b, oc, r)" by (cases st) auto
  from inv st have c: "closes b + oc = opens b" and p: "no_early_close b"
    by (simp_all add: brace_inv_def)
  show ?thesis
  proof (cases "ch = CHR ''{''")
    case True
    have "no_early_close (b @ [ch])"
      using p c True by (intro no_early_close_snoc) (simp_all add: closes_def)
    then show ?thesis using True c by (simp add: st brace_step_def brace_inv_def opens_def closes_def)
  next
    case False
    note nopen = this
    show ?thesis
    proof (cases "ch = CHR ''}''")
      case True
      show ?thesis
      proof (cases "oc = 0")
        case True
        then show ?thesis using \<open>ch = CHR ''}''\<close> c p
          by (simp add: st brace_step_def brace_inv_def)
      next
        case False
        have "no_early_close (b @ [ch])"
          using p c False True by (intro no_early_close_snoc) (simp_all add: closes_def)
        then show ?thesis using True False c
          by (simp add: st brace_step_def brace_inv_def opens_def closes_def)
      qed
    next
      case False
      have "no_early_close (b @ [ch])"
        using p c False nopen by (intro no_early_close_snoc) (simp_all add: closes_def)
      then show ?thesis using False nopen c
        by (simp add: st brace_step_def brace_inv_def opens_def closes_def)
    qed
  qed
qed

lemma brace_fold_inv: "brace_inv st \<Longrightarrow> brace_inv (fold brace_step code st)"
  by (induction code arbitrary: st) (simp_all add: brace_step_inv)

lemma closes_replicate: "closes (newline # replicate n CHR ''}'') = n"
  by (induction n) (simp_all add: closes_def newline_def)

lemma opens_replicate: "opens (newline # replicate n CHR ''}'') = 0"
  by (induction n) (simp_all add: opens_def newline_def)

lemma balance_braces_balanced: "brace_balanced (balance_braces code)"
proof -
  obtain b oc r where f: "fold brace_step code ([], 0, 0) = (b, oc, r)"
    by (cases "fold brace_step code ([], 0, 0)") auto
  have "brace_inv ([], 0, 0)"
    by (simp add: brace_inv_def no_early_close_def)
  then have "brace_inv (b, oc, r)"
    using brace_fold_inv [of "([], 0, 0)" code] f by simp
  then have c: "closes b + oc = opens b" and p: "no_early_close b"
    by (simp_all add: brace_inv_def)
  show ?thesis
  proof (cases "oc > 0")
    case True
    let ?t = "newline # replicate oc CHR ''}''"
    have r: "balance_braces code = b @ ?t" using f True by (simp add: balance_braces_def)
    have "no_early_close (b @ ?t)"
      using p c by (intro no_early_close_snoc) (simp_all add: closes_replicate)
    then show ?thesis
      using c unfolding r brace_balanced_def
      by (simp add: closes_replicate opens_replicate)
  next
    case False
    then show ?thesis using f c p by (simp add: balance_braces_def brace_balanced_def)
  qed
qed

text \<open>
  On text whose every prefix stays within the braces already open, the loop keeps every
  character and removes nothing.
\<close>

lemma brace_fold_keeps:
  "(\<forall>n. closes (take n xs) \<le> oc + opens (take n xs)) \<Longrightarrow>
   fold brace_step xs (b, oc, r) = (b @ xs, oc + opens xs - closes xs, r)"
proof (induction xs arbitrary: b oc)
  case Nil
  then show ?case by simp
next
  case (Cons x xs)
  have pre: "closes (take (Suc n) (x # xs)) \<le> oc + opens (take (Suc n) (x # xs))" for n
    using Cons.prems by blast
  show ?case
  proof (cases "x = CHR ''{''")
    case True
    have "\<forall>n. closes (take n xs) \<le> Suc oc + opens (take n xs)"
      using pre True by (simp add: opens_def closes_def)
    from Cons.IH [OF this] show ?thesis
      using True by (simp add: brace_step_def opens_def closes_def)
  next
    case False
    note nopen = this
    show ?thesis
    proof (cases "x = CHR ''}''")
      case True
      have "closes (take (Suc 0) (x # xs)) \<le> oc + opens (take (Suc 0) (x # xs))"
        by (rule pre)
      then have pos: "oc > 0" using True by (simp add: opens_def closes_def)
      have "\<forall>n. closes (take n xs) \<le> (oc - 1) + opens (take n xs)"
      proof
        fix n
        from pre [of n] True pos show "closes (take n xs) \<le> (oc - 1) + opens (take n xs)"
          by (simp add: opens_def closes_def)
      qed
      from Cons.IH [OF this] have ih:
        "fold brace_step xs (b @ [x], oc - 1, r) = ((b @ [x]) @ xs, oc - 1 + opens xs - closes xs, r)" .
      have st: "brace_step x (b, oc, r) = (b @ [x], oc - 1, r)"
        using True pos by (simp add: brace_step_def)
      have ar: "oc - 1 + opens xs - closes xs = oc + opens (x # xs) - closes (x # xs)"
        using True pos by (simp add: opens_def closes_def)
      have "fold brace_step (x # xs) (b, oc, r) = fold brace_step xs (b @ [x], oc - 1, r)"
        by (simp add: st)
      also note ih
      also have "((b @ [x]) @ xs, oc - 1 + opens xs - closes xs, r)
                 = (b @ x # xs, oc + opens (x # xs) - closes (x # xs), r)"
        unfolding ar by simp
      finally show ?thesis .
    next
      case False
      have "\<forall>n. closes (take n xs) \<le> oc + opens (take n xs)"
        using pre False nopen by (simp add: opens_def closes_def)
      from Cons.IH [OF this] show ?thesis
        using False nopen by (simp add: brace_step_def opens_def closes_def)
    qed
  qed
qed

lemma balance_braces_unchanged: "brace_balanced s \<Longrightarrow> balance_braces s = s"
proof -
  assume bal: "brace_balanced s"
  then have "\<forall>n. closes (take n s) \<le> 0 + opens (take n s)"
    by (simp add: brace_balanced_def no_early_close_def)
  from brace_fold_keeps [OF this, of "[]" 0]
  have "fold brace_step s ([], 0, 0) = (s, opens s - closes s, 0)" by simp
  moreover have "opens s - closes s = 0" using bal by (simp add: brace_balanced_def)
  ultimately show ?thesis by (simp add: balance_braces_def)
qed

text \<open>
  Claim C10.  For every input string, the brace-balancing pass returns a string in which
  the counts of \<^verbatim>\<open>{\<close> and \<^verbatim>\<open>}\<close> are equal and no prefix holds more \<^verbatim>\<open>}\<close> than \<^verbatim>\<open>{\<close>;
  the pass is idempotent; and a string that is already balanced in this counting sense is
  returned unchanged.
\<close>

theorem balance_braces_spec:
  "count_list (balance_braces code) CHR ''{'' = count_list (balance_braces code) CHR ''}''
   \<and> (\<forall>n. count_list (take n (balance_braces code)) CHR ''}''
           \<le> count_list (take n (balance_braces code)) CHR ''{'')
   \<and> balance_braces (balance_braces code) = balance_braces code
   \<and> (count_list s CHR ''{'' = count_list s CHR ''}''
        \<and> (\<forall>n. count_list (take n s) CHR ''}'' \<le> count_list (take n s) CHR ''{'')
      \<longrightarrow> balance_braces s = s)"
proof -
  have b: "brace_balanced (balance_braces code)" by (rule balance_braces_balanced)
  have u: "brace_balanced s \<longrightarrow> balance_braces s = s"
    by (simp add: balance_braces_unchanged)
  from b have i: "balance_braces (balance_braces code) = balance_braces code"
    by (rule balance_braces_unchanged)
  from b u i show ?thesis
    unfolding brace_balanced_def no_early_close_def opens_def closes_def by blast
qed

theorem balance_braces_spec_witness:
  "balance_braces ''}a{b{}'' = ''a{b{}'' @ [newline, CHR ''}'']
   \<and> balance_braces ''{x}'' = ''{x}''"
proof -
  have "count_list ''{x}'' CHR ''{'' = count_list ''{x}'' CHR ''}''" by simp
  moreover have "\<forall>n. count_list (take n ''{x}'') CHR ''}'' \<le> count_list (take n ''{x}'') CHR ''{''"
  proof
    fix n :: nat
    consider "n = 0" | "n = 1" | "n = 2" | "n \<ge> 3" by linarith
    then show "count_list (take n ''{x}'') CHR ''}'' \<le> count_list (take n ''{x}'') CHR ''{''"
      by cases (simp_all add: take_Suc_Cons numeral_2_eq_2)
  qed
  ultimately have "balance_braces ''{x}'' = ''{x}''"
    using balance_braces_spec [of "''''" "''{x}''"] by blast
  moreover have "balance_braces ''}a{b{}'' = ''a{b{}'' @ [newline, CHR ''}'']"
    by (simp add: balance_braces_def brace_step_def)
  ultimately show ?thesis by simp
qed

section \<open>The oracle pass and the returned suite\<close>

lemma execute_ok:
  "execute ex run = ExecOk out \<Longrightarrow>
   \<exists>stdout stderr. run = Spawned (Exited 0 stdout stderr) \<and> out = strip stdout
      \<and> length stdout \<le> max_output_size ex"
  by (auto simp: execute_def run_subprocess_def
           split: oracle_run.splits proc_outcome.splits exec_result.splits if_splits)

lemma execute_success:
  "length stdout \<le> max_output_size ex \<Longrightarrow>
   execute ex (Spawned (Exited 0 stdout stderr)) = ExecOk (strip stdout)"
  by (simp add: execute_def run_subprocess_def)

lemma oracle_pass_tick: "snd (oracle_pass env code inputs t) = t + length inputs"
  by (induction inputs arbitrary: t) (simp_all add: Let_def case_prod_unfold)

lemma oracle_pass_length: "length (fst (oracle_pass env code inputs t)) \<le> length inputs"
  by (induction inputs arbitrary: t)
     (auto simp: Let_def case_prod_unfold le_SucI split: exec_result.splits)

lemma oracle_pass_member:
  "tc \<in> set (fst (oracle_pass env code inputs t)) \<Longrightarrow>
   \<exists>k < length inputs. tc_input tc = inputs ! k \<and> tc_output tc \<noteq> [] \<and>
      execute (code_executor env) (run_oracle env (t + k) code (inputs ! k)) = ExecOk (tc_output tc)"
proof (induction inputs arbitrary: t)
  case Nil
  then show ?case by simp
next
  case (Cons input_data rest)
  obtain tcs t' where rec: "oracle_pass env code rest (t + 1) = (tcs, t')"
    by (cases "oracle_pass env code rest (t + 1)") auto
  let ?result = "execute (code_executor env) (run_oracle env t code input_data)"
  consider (head) out where "?result = ExecOk out" "out \<noteq> []"
      "tc = \<lparr>tc_input = input_data, tc_output = out\<rparr>"
    | (tail) "tc \<in> set tcs"
    using Cons.prems rec by (auto simp: Let_def split: exec_result.splits if_splits)
  then show ?case
  proof cases
    case head
    then have "tc_input tc = (input_data # rest) ! 0 \<and> tc_output tc \<noteq> [] \<and>
        execute (code_executor env) (run_oracle env (t + 0) code ((input_data # rest) ! 0))
          = ExecOk (tc_output tc)"
      by simp
    then show ?thesis by (intro exI [of _ 0]) simp
  next
    case tail
    then have "tc \<in> set (fst (oracle_pass env code rest (t + 1)))" using rec by simp
    from Cons.IH [OF this] obtain k where k: "k < length rest" "tc_input tc = rest ! k"
      "tc_output tc \<noteq> []"
      "execute (code_executor env) (run_oracle env (t + 1 + k) code (rest ! k)) = ExecOk (tc_output tc)"
      by blast
    then show ?thesis by (intro exI [of _ "Suc k"]) simp
  qed
qed

lemma oracle_pass_drops:
  "k < length inputs \<Longrightarrow>
   execute (code_executor env) (run_oracle env (t + k) code (inputs ! k)) = ExecOk [] \<Longrightarrow>
   length (fst (oracle_pass env code inputs t)) < length inputs"
proof (induction inputs arbitrary: t k)
  case Nil
  then show ?case by simp
next
  case (Cons input_data rest)
  obtain tcs t' where rec: "oracle_pass env code rest (t + 1) = (tcs, t')"
    by (cases "oracle_pass env code rest (t + 1)") auto
  have le: "length tcs \<le> length rest"
    using oracle_pass_length [of env code rest "t + 1"] rec by simp
  show ?case
  proof (cases k)
    case 0
    then have "execute (code_executor env) (run_oracle env t code input_data) = ExecOk []"
      using Cons.prems by simp
    then show ?thesis using rec le by (simp add: Let_def)
  next
    case (Suc j)
    then have "j < length rest"
      and "execute (code_executor env) (run_oracle env (t + 1 + j) code (rest ! j)) = ExecOk []"
      using Cons.prems by simp_all
    from Cons.IH [OF this] have "length tcs < length rest" using rec by simp
    then show ?thesis using rec by (simp add: Let_def split: exec_result.splits)
  qed
qed

lemma generate_test_cases_Inr:
  assumes "generate_test_cases env b = Inr r"
  shows "test_cases r = fst (oracle_pass env (oracle_code b)
           (py_prefix (target_count b) (valid_cases (snd (supervise env b))))
           (tick (snd (supervise env b))))"
    and "valid_cases (snd (supervise env b)) \<noteq> []"
  using assms
  by (auto simp: generate_test_cases_def Let_def split: prod.splits if_splits)

text \<open>
  Claim C5, as amended.  For every test case of a returned suite, the oracle was run on its
  input, exited with status 0, and the output of the test case is what the oracle wrote on
  standard output with the white space removed at both ends (\<^verbatim>\<open>stdout.strip()\<close>);
  what lies between is kept as it is.
\<close>

theorem suite_output_is_stripped_stdout:
  "generate_test_cases env b = Inr r \<Longrightarrow>
   \<forall>tc \<in> set (test_cases r).
      \<exists>t stdout stderr. run_oracle env t (oracle_code b) (tc_input tc) = Spawned (Exited 0 stdout stderr)
         \<and> tc_output tc = strip stdout"
proof
  fix tc
  assume r: "generate_test_cases env b = Inr r" and tc: "tc \<in> set (test_cases r)"
  let ?s = "snd (supervise env b)"
  let ?kept = "py_prefix (target_count b) (valid_cases ?s)"
  from tc generate_test_cases_Inr(1) [OF r]
  have "tc \<in> set (fst (oracle_pass env (oracle_code b) ?kept (tick ?s)))" by simp
  from oracle_pass_member [OF this] obtain k where k: "tc_input tc = ?kept ! k"
    "execute (code_executor env) (run_oracle env (tick ?s + k) (oracle_code b) (?kept ! k))
       = ExecOk (tc_output tc)"
    by blast
  from execute_ok [OF k(2)] k(1)
  show "\<exists>t stdout stderr. run_oracle env t (oracle_code b) (tc_input tc) = Spawned (Exited 0 stdout stderr)
         \<and> tc_output tc = strip stdout"
    by auto
qed

text \<open>
  Claim C9.  In the final oracle pass no returned test case has an empty output; and when
  the oracle run on one of the kept candidates succeeds (exit status 0, output within the
  size limit) with only white space on standard output, the suite has fewer entries than
  there are kept candidates: the pair is dropped and nothing is reported.
\<close>

theorem empty_output_dropped:
  "generate_test_cases env b = Inr r \<Longrightarrow>
   (\<forall>tc \<in> set (test_cases r). tc_output tc \<noteq> [])
   \<and> (\<forall>k stdout stderr.
         k < length (py_prefix (target_count b) (valid_cases (snd (supervise env b))))
         \<and> run_oracle env (tick (snd (supervise env b)) + k) (oracle_code b)
              (py_prefix (target_count b) (valid_cases (snd (supervise env b))) ! k)
            = Spawned (Exited 0 stdout stderr)
         \<and> length stdout \<le> max_output_size (code_executor env)
         \<and> strip stdout = []
       \<longrightarrow> length (test_cases r)
             < length (py_prefix (target_count b) (valid_cases (snd (supervise env b)))))"
proof -
  assume r: "generate_test_cases env b = Inr r"
  let ?s = "snd (supervise env b)"
  let ?kept = "py_prefix (target_count b) (valid_cases ?s)"
  note tcs = generate_test_cases_Inr(1) [OF r]
  have a: "\<forall>tc \<in> set (test_cases r). tc_output tc \<noteq> []"
    using oracle_pass_member [of _ env "oracle_code b" ?kept "tick ?s"] tcs by auto
  have b: "length (test_cases r) < length ?kept"
    if "k < length ?kept"
      and "run_oracle env (tick ?s + k) (oracle_code b) (?kept ! k) = Spawned (Exited 0 stdout stderr)"
      and "length stdout \<le> max_output_size (code_executor env)" and "strip stdout = []"
    for k stdout stderr
  proof -
    have "execute (code_executor env) (run_oracle env (tick ?s + k) (oracle_code b) (?kept ! k))
          = ExecOk []"
      using that by (simp add: execute_success)
    from oracle_pass_drops [OF that(1) this] show ?thesis using tcs by simp
  qed
  from a b show ?thesis by blast
qed


lemmas step_defs = synthesize_generator_def compile_generator_step_def compile_with_auto_fix_def
  synthesize_validator_def compile_validator_step_def validate_examples_def generate_candidates_def
  filter_candidates_def diversity_check_def loop_body_def compile_func_def revise_func_def
  revise_call_def called_def advance_def max_compilation_fixes_def generate_test_cases_batch_def
  generate_test_case_def validate_test_case_def execute_def run_subprocess_def CodeExecutor_def
  expected_outputs_def py_prefix_def supervise_def initial_state_def max_iterations_def
  supervision_timeout_seconds_def minimal_validator_retry_def failed_def

lemmas text_defs = split_ws_def isspace_def strip_def lstrip_def rstrip_def rstrip_newlines_def
  newline_def endswith_def startswith_def

lemmas scenario_defs = scenario_def accept_all_def reject_all_def reject_final_newline_def
  always_yes_def blank_on_first_def padded_def echo_def two_cases_def with_example_def
  silent_agent_def late_agent_def missing_method_def

lemma supervise_accept_all:
  "supervise (scenario (\<lambda>t. 0) accept_all oracle) two_cases =
     (1, \<lparr>generator_code = Some ''int main() {}'',
          validator_code = Some ''int main() {}'',
          generator_commands = [''./gen -n 1'', ''./gen -n 2''],
          validation_errors = [], compilation_errors = None, sample_inputs = [],
          validation_outputs = [], generator_executable = Some ''/tmp/gen'',
          validator_executable = Some ''/tmp/val'',
          valid_cases = [''-n1'' @ [newline], ''-n2'' @ [newline]], tick = 12,
          calls = [InferFormat, GenerateGenerator, GenerateValidator]\<rparr>)"
  by (simp add: supervision_loop.simps step_defs text_defs scenario_defs numeral_3_eq_3 Let_def)


text \<open>
  Claim C1.  One iteration whose candidates are all accepted fills the accumulator; the
  loop leaves at its head and the final oracle pass returns both pairs, although the oracle
  answered \<^verbatim>\<open>YES\<close> for each: two entries, one distinct output, and no revision of the
  generator.
\<close>

theorem same_output_suite_returned:
  "generate_test_cases (scenario (\<lambda>t. 0) accept_all always_yes) two_cases =
     Inr \<lparr>test_cases = [\<lparr>tc_input = ''-n1'' @ [newline], tc_output = ''YES''\<rparr>,
                        \<lparr>tc_input = ''-n2'' @ [newline], tc_output = ''YES''\<rparr>],
          total_generated = 2, final_generator_code = Some ''int main() {}'',
          final_validator_code = Some ''int main() {}'',
          final_generator_commands = [''./gen -n 1'', ''./gen -n 2''], iterations = 1\<rparr>
   \<and> agent_calls (scenario (\<lambda>t. 0) accept_all always_yes) two_cases =
       [InferFormat, GenerateGenerator, GenerateValidator]"
  unfolding generate_test_cases_def agent_calls_def supervise_accept_all
  by (simp add: step_defs text_defs scenario_defs Let_def)

text \<open>
  Claim C5, as stated: the output is the oracle's standard output with only the white space
  at its end removed.  It fails when the oracle prints white space first.
\<close>

theorem leading_space_stripped_counterexample:
  "generate_test_cases (scenario (\<lambda>t. 0) accept_all padded) two_cases =
     Inr \<lparr>test_cases = [\<lparr>tc_input = ''-n1'' @ [newline], tc_output = ''5''\<rparr>,
                        \<lparr>tc_input = ''-n2'' @ [newline], tc_output = ''5''\<rparr>],
          total_generated = 2, final_generator_code = Some ''int main() {}'',
          final_validator_code = Some ''int main() {}'',
          final_generator_commands = [''./gen -n 1'', ''./gen -n 2''], iterations = 1\<rparr>
   \<and> run_oracle (scenario (\<lambda>t. 0) accept_all padded) 12 ''print(1)'' (''-n1'' @ [newline])
       = Spawned (Exited 0 (''  5'' @ [newline]) [])
   \<and> run_oracle (scenario (\<lambda>t. 0) accept_all padded) 13 ''print(1)'' (''-n2'' @ [newline])
       = Spawned (Exited 0 (''  5'' @ [newline]) [])
   \<and> rstrip (''  5'' @ [newline]) = ''  5''"
  unfolding generate_test_cases_def supervise_accept_all
  by (simp add: step_defs text_defs scenario_defs Let_def)

theorem suite_output_is_stripped_stdout_witness:
  "generate_test_cases (scenario (\<lambda>t. 0) accept_all padded) two_cases =
     Inr \<lparr>test_cases = [\<lparr>tc_input = ''-n1'' @ [newline], tc_output = ''5''\<rparr>,
                        \<lparr>tc_input = ''-n2'' @ [newline], tc_output = ''5''\<rparr>],
          total_generated = 2, final_generator_code = Some ''int main() {}'',
          final_validator_code = Some ''int main() {}'',
          final_generator_commands = [''./gen -n 1'', ''./gen -n 2''], iterations = 1\<rparr>
   \<and> (\<exists>t stdout stderr.
         run_oracle (scenario (\<lambda>t. 0) accept_all padded) t ''print(1)'' (''-n1'' @ [newline])
           = Spawned (Exited 0 stdout stderr) \<and> ''5'' = strip stdout)"
proof -
  have run: "generate_test_cases (scenario (\<lambda>t. 0) accept_all padded) two_cases =
     Inr \<lparr>test_cases = [\<lparr>tc_input = ''-n1'' @ [newline], tc_output = ''5''\<rparr>,
                        \<lparr>tc_input = ''-n2'' @ [newline], tc_output = ''5''\<rparr>],
          total_generated = 2, final_generator_code = Some ''int main() {}'',
          final_validator_code = Some ''int main() {}'',
          final_generator_commands = [''./gen -n 1'', ''./gen -n 2''], iterations = 1\<rparr>"
    unfolding generate_test_cases_def supervise_accept_all
    by (simp add: step_defs text_defs scenario_defs Let_def)
  have "\<lparr>tc_input = ''-n1'' @ [newline], tc_output = ''5''\<rparr>
          \<in> set (test_cases \<lparr>test_cases = [\<lparr>tc_input = ''-n1'' @ [newline], tc_output = ''5''\<rparr>,
                        \<lparr>tc_input = ''-n2'' @ [newline], tc_output = ''5''\<rparr>],
          total_generated = 2, final_generator_code = Some ''int main() {}'',
          final_validator_code = Some ''int main() {}'',
          final_generator_commands = [''./gen -n 1'', ''./gen -n 2''], iterations = 1\<rparr>)"
    by simp
  from suite_output_is_stripped_stdout [OF run, rule_format, OF this]
  have "\<exists>t stdout stderr.
         run_oracle (scenario (\<lambda>t. 0) accept_all padded) t (oracle_code two_cases) (''-n1'' @ [newline])
           = Spawned (Exited 0 stdout stderr) \<and> ''5'' = strip stdout"
    by simp
  then show ?thesis using run by (simp add: two_cases_def)
qed

theorem empty_output_dropped_witness:
  "generate_test_cases (scenario (\<lambda>t. 0) accept_all blank_on_first) two_cases =
     Inr \<lparr>test_cases = [\<lparr>tc_input = ''-n2'' @ [newline], tc_output = ''YES''\<rparr>],
          total_generated = 1, final_generator_code = Some ''int main() {}'',
          final_validator_code = Some ''int main() {}'',
          final_generator_commands = [''./gen -n 1'', ''./gen -n 2''], iterations = 1\<rparr>
   \<and> valid_cases (snd (supervise (scenario (\<lambda>t. 0) accept_all blank_on_first) two_cases))
       = [''-n1'' @ [newline], ''-n2'' @ [newline]]
   \<and> run_oracle (scenario (\<lambda>t. 0) accept_all blank_on_first) 12 ''print(1)'' (''-n1'' @ [newline])
       = Spawned (Exited 0 [newline] [])
   \<and> run_oracle (scenario (\<lambda>t. 0) accept_all blank_on_first) 13 ''print(1)'' (''-n2'' @ [newline])
       = Spawned (Exited 0 (''YES'' @ [newline]) [])
   \<and> strip [newline] = []
   \<and> length [\<lparr>tc_input = ''-n2'' @ [newline], tc_output = ''YES''\<rparr>]
       < length [''-n1'' @ [newline], ''-n2'' @ [newline]]"
proof -
  let ?env = "scenario (\<lambda>t. 0) accept_all blank_on_first"
  let ?r = "\<lparr>test_cases = [\<lparr>tc_input = ''-n2'' @ [newline], tc_output = ''YES''\<rparr>],
          total_generated = 1, final_generator_code = Some ''int main() {}'',
          final_validator_code = Some ''int main() {}'',
          final_generator_commands = [''./gen -n 1'', ''./gen -n 2''], iterations = 1\<rparr>"
  have run: "generate_test_cases ?env two_cases = Inr ?r"
    unfolding generate_test_cases_def supervise_accept_all
    by (simp add: step_defs text_defs scenario_defs Let_def)
  have kept: "py_prefix (target_count two_cases) (valid_cases (snd (supervise ?env two_cases)))
              = [''-n1'' @ [newline], ''-n2'' @ [newline]]"
    unfolding supervise_accept_all by (simp add: py_prefix_def two_cases_def)
  have first: "run_oracle ?env (tick (snd (supervise ?env two_cases)) + 0) (oracle_code two_cases)
                 ([''-n1'' @ [newline], ''-n2'' @ [newline]] ! 0) = Spawned (Exited 0 [newline] [])"
    unfolding supervise_accept_all by (simp add: scenario_defs)
  have blank: "strip [newline] = []"
    by (simp add: text_defs)
  have small: "length [newline] \<le> max_output_size (code_executor ?env)"
    by (simp add: scenario_defs CodeExecutor_def)
  have "length (test_cases ?r)
        < length (py_prefix (target_count two_cases) (valid_cases (snd (supervise ?env two_cases))))"
    by (rule empty_output_dropped [OF run, THEN conjunct2, rule_format, of 0 "[newline]" "[]"])
       (unfold supervise_accept_all, simp add: blank scenario_defs CodeExecutor_def py_prefix_def)
  then have "length (test_cases ?r) < length [''-n1'' @ [newline], ''-n2'' @ [newline]]"
    unfolding kept .
  then show ?thesis
    using run blank unfolding supervise_accept_all by (simp add: scenario_defs)
qed

section \<open>How the function ends\<close>

lemma supervise_zero_target:
  "target_count b \<le> 0 \<Longrightarrow>
   supervise env b = (0, advance (called InferFormat (advance initial_state)))"
  unfolding supervise_def Let_def
  by (subst supervision_loop.simps)
     (simp add: Let_def called_def advance_def initial_state_def)

text \<open>
  Claim C7, as amended.  With \<open>target_count = 0\<close> the loop is left at its head before any
  iteration: no generator, validator or revision call is made (the format inference before
  the loop is the only call), and the function raises ValueError, the accumulator being
  empty, instead of returning an empty suite.
\<close>

theorem zero_target_raises:
  "target_count b = 0 \<Longrightarrow>
   generate_test_cases env b = Inl (ValueError no_valid_cases_message)
   \<and> agent_calls env b = [InferFormat]"
  by (simp add: generate_test_cases_def agent_calls_def supervise_zero_target
        called_def advance_def initial_state_def)

theorem zero_target_counterexample:
  "generate_test_cases (scenario (\<lambda>t. 0) accept_all always_yes) (two_cases\<lparr>target_count := 0\<rparr>)
     = Inl (ValueError no_valid_cases_message)"
  by (simp add: generate_test_cases_def supervision_loop.simps step_defs scenario_defs Let_def)

theorem zero_target_raises_witness:
  "target_count (two_cases\<lparr>target_count := 0\<rparr>) = 0
   \<and> generate_test_cases (scenario (\<lambda>t. 0) accept_all always_yes) (two_cases\<lparr>target_count := 0\<rparr>)
       = Inl (ValueError no_valid_cases_message)
   \<and> agent_calls (scenario (\<lambda>t. 0) accept_all always_yes) (two_cases\<lparr>target_count := 0\<rparr>)
       = [InferFormat]"
proof -
  have zero: "target_count (two_cases\<lparr>target_count := 0\<rparr>) = 0" by simp
  from zero_target_raises [OF zero, of "scenario (\<lambda>t. 0) accept_all always_yes"] zero
  show ?thesis by blast
qed

text \<open>
  Claim C3, as amended.  Whenever the loop ends with an empty accumulator (on the
  wall-clock budget, on the iteration cap, or otherwise) the function raises ValueError:
  no suite, empty or partial, is returned.  It returns a suite in every other case.
\<close>

theorem no_candidates_raises:
  "(valid_cases (snd (supervise env b)) = []
      \<longrightarrow> generate_test_cases env b = Inl (ValueError no_valid_cases_message))
   \<and> (valid_cases (snd (supervise env b)) \<noteq> [] \<longrightarrow> (\<exists>r. generate_test_cases env b = Inr r))"
  by (simp add: generate_test_cases_def Let_def split: prod.splits)

lemma supervise_silent_agent:
  "supervise (silent_agent (scenario (\<lambda>t. 200 * real t) accept_all always_yes)) two_cases =
     (1, \<lparr>generator_code = None, validator_code = None, generator_commands = [],
          validation_errors = [], compilation_errors = None, sample_inputs = [],
          validation_outputs = [], generator_executable = None, validator_executable = None,
          valid_cases = [], tick = 5, calls = [InferFormat, GenerateGenerator]\<rparr>)"
  by (simp add: supervision_loop.simps step_defs scenario_defs Let_def)

theorem budget_exhausted_counterexample:
  "generate_test_cases (silent_agent (scenario (\<lambda>t. 200 * real t) accept_all always_yes)) two_cases
     = Inl (ValueError no_valid_cases_message)
   \<and> fst (supervise (silent_agent (scenario (\<lambda>t. 200 * real t) accept_all always_yes)) two_cases) = 1"
  unfolding generate_test_cases_def supervise_silent_agent by simp

theorem no_candidates_raises_witness:
  "valid_cases (snd (supervise (silent_agent (scenario (\<lambda>t. 200 * real t) accept_all always_yes))
                      two_cases)) = []
   \<and> generate_test_cases (silent_agent (scenario (\<lambda>t. 200 * real t) accept_all always_yes)) two_cases
       = Inl (ValueError no_valid_cases_message)
   \<and> valid_cases (snd (supervise (scenario (\<lambda>t. 0) accept_all always_yes) two_cases)) \<noteq> []
   \<and> (\<exists>r. generate_test_cases (scenario (\<lambda>t. 0) accept_all always_yes) two_cases = Inr r)"
proof -
  have none: "valid_cases (snd (supervise (silent_agent (scenario (\<lambda>t. 200 * real t) accept_all
                 always_yes)) two_cases)) = []"
    unfolding supervise_silent_agent by simp
  have some: "valid_cases (snd (supervise (scenario (\<lambda>t. 0) accept_all always_yes) two_cases)) \<noteq> []"
    unfolding supervise_accept_all by simp
  from no_candidates_raises [of "silent_agent (scenario (\<lambda>t. 200 * real t) accept_all always_yes)"
        two_cases] none
  have a: "generate_test_cases (silent_agent (scenario (\<lambda>t. 200 * real t) accept_all always_yes))
             two_cases = Inl (ValueError no_valid_cases_message)"
    by blast
  from no_candidates_raises [of "scenario (\<lambda>t. 0) accept_all always_yes" two_cases] some
  have b: "\<exists>r. generate_test_cases (scenario (\<lambda>t. 0) accept_all always_yes) two_cases = Inr r"
    by blast
  from none some a b show ?thesis by blast
qed

section \<open>The commands and the runs of the generator\<close>

lemmas command_defs = generator_commands_of_def extract_commands_def match_commands_here_def
  gen_lines_def extract_opt_params_def match_opt_here_def validate_commands_def
  name_start_def name_char_def isdigit_def

text \<open>
  Claim C6.  The generator source declares the option \<^verbatim>\<open>n\<close> only; its command block
  names the flag \<^verbatim>\<open>seed\<close> as well.  The command list that
  \<^verbatim>\<open>generate_generator_program\<close> returns keeps the command with the undeclared flag:
  \<^verbatim>\<open>_validate_commands\<close>, which would drop it, is not called.
\<close>

theorem undeclared_flag_kept:
  "generator_commands_of undeclared_flag_source = [''./gen -n 5 -seed 7'', ''./gen -n 9'']
   \<and> extract_opt_params undeclared_flag_source = [''n'']
   \<and> findall_params Idle ''./gen -n 5 -seed 7'' = [''n'', ''seed'']
   \<and> validate_commands undeclared_flag_source (generator_commands_of undeclared_flag_source)
       = [''./gen -n 9'']"
  by (simp add: undeclared_flag_source_def command_defs text_defs Let_def)

text \<open>
  Claim C8.  The runner hands the executable the parts of the command after the program
  marker and nothing else: no seed is computed (\<^verbatim>\<open>calculate_seed\<close> is called nowhere) and
  the candidate is whatever the process prints.  A generator program that prints a different
  number on each run gives two different candidates for the same command, in one batch.
\<close>

theorem same_command_different_candidates:
  "generate_test_case
      (\<lambda>args. if args = [''-n'', ''5''] then Exited 0 (''17'' @ [newline]) [] else Raised ''other arguments'')
      ''./gen -n 5'' = GenOk (''17'' @ [newline])
   \<and> generate_test_case
      (\<lambda>args. if args = [''-n'', ''5''] then Exited 0 (''42'' @ [newline]) [] else Raised ''other arguments'')
      ''./gen -n 5'' = GenOk (''42'' @ [newline])
   \<and> generate_test_cases_batch
        (\<lambda>t args. if args = [''-n'', ''5''] then Exited 0 (str_nat (17 + 25 * t) @ [newline]) []
                  else Raised ''other arguments'')
        [''./gen -n 5'', ''./gen -n 5''] None 0
       = ([GenOk (''17'' @ [newline]), GenOk (''42'' @ [newline])], 2)"
  by (simp add: generate_test_case_def generate_test_cases_batch_def text_defs Let_def
        str_nat.simps digit_char_def)

end
